theory Spec2Isabelle
  imports Complex_Main
begin

section \<open>Values, rows and data frames\<close>

text \<open>
  The program keeps one pandas data frame and works on it through a handful of pandas
  calls. A cell holds an integer or a text; a missing cell (pandas' NaN) is \<open>None\<close>.
  The values the interactive shell can produce are exactly these two kinds
  (\<^verbatim>\<open>int(input(...))\<close> and \<^verbatim>\<open>input(...)\<close>).

  A row is a map from column names to values. A data frame is the ordered list of its
  column names, the dtype of each column, and the ordered list of its rows, each row
  carrying its index label. The label is what \<^verbatim>\<open>.at\<close> and \<^verbatim>\<open>.drop\<close> address;
  the position in the list is the positional index.

  The dtype decides what a column can hold. An \<open>Int64\<close> column holds the integers of
  64 bits and no missing cell; a \<open>Float64\<close> column holds missing cells and those
  integers a double represents, so an integer that enters it is rounded; a \<open>Str\<close>
  column holds texts (pandas 3 calls it \<^verbatim>\<open>str\<close>, pandas 2 stored texts in an
  \<^verbatim>\<open>object\<close> column); an \<open>Object\<close> column holds any Python value as it is.
  \<open>UInt64\<close> is the dtype pandas infers for a lone integer from \<open>2^63\<close> up to
  \<open>2^64 - 1\<close>. The operations follow pandas 3; where pandas 2 did otherwise, the text
  says so.
\<close>

datatype val = IntV int | StrV string

type_synonym cell = "val option"

type_synonym row = "string \<Rightarrow> val option"

datatype dtype = Int64 | UInt64 | Float64 | Str | Object

datatype py_error =
  KeyError | TypeError | UndefinedVariableError | AssertionError | ValueError | OverflowError

record DataFrame =
  columns :: "string list"
  dtypes :: "string \<Rightarrow> dtype"
  rows :: "(int \<times> row) list"

text \<open>A Python dict keeps its keys in insertion order: an association list.\<close>

type_synonym dict = "(string \<times> val) list"

definition index :: "DataFrame \<Rightarrow> int list" where
  "index df = map fst (rows df)"

definition RangeIndex :: "nat \<Rightarrow> int list" where
  "RangeIndex n = map int [0..<n]"

text \<open>The cell at a position and a column name; missing when the row has no such cell.\<close>

definition cell_at :: "DataFrame \<Rightarrow> nat \<Rightarrow> string \<Rightarrow> cell" where
  "cell_at df i c = snd (rows df ! i) c"

subsection \<open>Integers as doubles\<close>

text \<open>
  The conversion of an integer to float64 rounds it to 53 significant bits, to the
  nearest such number and to the even one on a tie. \<open>f64\<close> is the integer the double
  stands for. Python raises OverflowError for an integer whose double would reach
  \<open>2^1024\<close>.
\<close>

fun bitlen :: "nat \<Rightarrow> nat" where
  "bitlen n = (if n = 0 then 0 else Suc (bitlen (n div 2)))"

declare bitlen.simps [simp del]

definition f64_nat :: "nat \<Rightarrow> nat" where
  "f64_nat m =
     (if m \<le> 2 ^ 53 then m
      else let e = bitlen m - 53; q = m div 2 ^ e; r = m mod 2 ^ e; h = 2 ^ (e - 1)
           in (if h < r \<or> (r = h \<and> odd q) then q + 1 else q) * 2 ^ e)"

definition f64 :: "int \<Rightarrow> int" where
  "f64 n = (if n < 0 then - int (f64_nat (nat (- n))) else int (f64_nat (nat n)))"

definition f64_overflows :: "int \<Rightarrow> bool" where
  "f64_overflows n \<longleftrightarrow> 2 ^ 1024 \<le> \<bar>f64 n\<bar>"

subsection \<open>Dtypes\<close>

text \<open>The dtype pandas infers for a lone Python value.\<close>

fun dtype_of :: "val \<Rightarrow> dtype" where
  "dtype_of (IntV n) =
     (if - (2 ^ 63) \<le> n \<and> n < 2 ^ 63 then Int64
      else if 2 ^ 63 \<le> n \<and> n < 2 ^ 64 then UInt64
      else Object)"
| "dtype_of (StrV s) = Str"

definition is_numeric :: "dtype \<Rightarrow> bool" where
  "is_numeric d \<longleftrightarrow> d = Int64 \<or> d = UInt64 \<or> d = Float64"

text \<open>The dtype a column takes when it has to hold a missing cell.\<close>

fun hold_na :: "dtype \<Rightarrow> dtype" where
  "hold_na Int64 = Float64"
| "hold_na UInt64 = Float64"
| "hold_na d = d"

text \<open>The common dtype of two columns that are stacked.\<close>

definition common_dtype :: "dtype \<Rightarrow> dtype \<Rightarrow> dtype" where
  "common_dtype a b =
     (if a = b then a else if is_numeric a \<and> is_numeric b then Float64 else Object)"

text \<open>\<^verbatim>\<open>astype\<close>: a value as a column of the given dtype stores it.\<close>

fun cast :: "dtype \<Rightarrow> val \<Rightarrow> val" where
  "cast Float64 (IntV n) = IntV (f64 n)"
| "cast d v = v"

definition astype :: "(string \<Rightarrow> dtype) \<Rightarrow> row \<Rightarrow> row" where
  "astype dts r = (\<lambda>c. map_option (cast (dts c)) (r c))"

text \<open>
  Writing one value into a column of a given dtype (the \<^verbatim>\<open>setitem\<close> of a block):
  the value as it is stored, or the exception. An integer column takes the integers of
  64 bits; for one from \<open>2^63\<close> up to \<open>2^64 - 1\<close> pandas finds no wider dtype and fails
  an assertion, for a larger one numpy rejects the dtype it is asked about, and for
  anything else pandas 3 raises TypeError. A float column rounds an integer. A text
  column takes texts only. Pandas 2 raised no TypeError here: it changed the column to
  \<^verbatim>\<open>object\<close> and stored the value.
\<close>

fun setitem :: "dtype \<Rightarrow> val \<Rightarrow> py_error + val" where
  "setitem Int64 (IntV n) =
     (if - (2 ^ 63) \<le> n \<and> n < 2 ^ 63 then Inr (IntV n)
      else if 2 ^ 63 \<le> n \<and> n < 2 ^ 64 then Inl AssertionError
      else if 2 ^ 64 \<le> n then Inl ValueError
      else Inl TypeError)"
| "setitem Int64 (StrV s) = Inl TypeError"
| "setitem UInt64 (IntV n) = (if 0 \<le> n \<and> n < 2 ^ 64 then Inr (IntV n) else Inl TypeError)"
| "setitem UInt64 (StrV s) = Inl TypeError"
| "setitem Float64 (IntV n) = (if f64_overflows n then Inl OverflowError else Inr (IntV (f64 n)))"
| "setitem Float64 (StrV s) = Inl TypeError"
| "setitem Str (IntV n) = Inl TypeError"
| "setitem Str (StrV s) = Inr (StrV s)"
| "setitem Object v = Inr v"

subsection \<open>The pandas and Python operations the program calls\<close>

text \<open>\<^verbatim>\<open>d[k]\<close> on a dict raises KeyError for a missing key.\<close>

definition dict_getitem :: "dict \<Rightarrow> string \<Rightarrow> py_error + val" where
  "dict_getitem d k = (case map_of d k of None \<Rightarrow> Inl KeyError | Some v \<Rightarrow> Inr v)"

text \<open>\<^verbatim>\<open>df[c].values\<close> as a list: the cells of one column, top to bottom.\<close>

definition getitem :: "DataFrame \<Rightarrow> string \<Rightarrow> py_error + cell list" where
  "getitem df c =
     (if c \<in> set (columns df) then Inr (map (\<lambda>(l, r). r c) (rows df)) else Inl KeyError)"

text \<open>
  \<^verbatim>\<open>pd.DataFrame([d])\<close>: one row labelled 0, the dict's keys as columns, each with
  the dtype inferred from its value.
\<close>

definition DataFrame_of_records :: "dict \<Rightarrow> DataFrame" where
  "DataFrame_of_records d =
     \<lparr>columns = map fst d,
      dtypes = (\<lambda>c. case map_of d c of None \<Rightarrow> Object | Some v \<Rightarrow> dtype_of v),
      rows = [(0, map_of d)]\<rparr>"

text \<open>\<^verbatim>\<open>df.reset_index(drop=True)\<close>: the rows keep their order and are labelled 0, 1, ...\<close>

definition reset_index :: "DataFrame \<Rightarrow> DataFrame" where
  "reset_index df = df\<lparr>rows := zip (RangeIndex (length (rows df))) (map snd (rows df))\<rparr>"

text \<open>
  \<^verbatim>\<open>pd.concat([a, b], ignore_index=True)\<close>: the rows of \<open>a\<close>, then those of \<open>b\<close>,
  relabelled; the columns are those of \<open>a\<close> followed by the columns only \<open>b\<close> has
  (outer join, unsorted). A cell of a column the row's frame did not have is missing.
  A column both frames have takes their common dtype, a column only one of them has takes
  a dtype that holds the missing cells, and every cell is converted to the dtype of its
  column: an integer column that the new row leaves out becomes a float column, and its
  integers are rounded. Pandas 2 left a column that is empty or holds only missing cells
  out when it determined the common dtype.
\<close>

definition concat_dtype :: "DataFrame \<Rightarrow> DataFrame \<Rightarrow> string \<Rightarrow> dtype" where
  "concat_dtype a b c =
     (if c \<in> set (columns a)
      then (if c \<in> set (columns b) then common_dtype (dtypes a c) (dtypes b c)
            else hold_na (dtypes a c))
      else hold_na (dtypes b c))"

definition concat_ignore_index :: "DataFrame \<Rightarrow> DataFrame \<Rightarrow> DataFrame" where
  "concat_ignore_index a b =
     reset_index
       \<lparr>columns = columns a @ filter (\<lambda>c. c \<notin> set (columns a)) (columns b),
        dtypes = concat_dtype a b,
        rows = map (\<lambda>(l, r). (l, astype (concat_dtype a b) r)) (rows a @ rows b)\<rparr>"

text \<open>
  \<^verbatim>\<open>df.drop(i, axis=0)\<close>: removes the rows labelled \<open>i\<close>; KeyError when no row has
  that label.
\<close>

definition drop_label :: "DataFrame \<Rightarrow> int \<Rightarrow> py_error + DataFrame" where
  "drop_label df i =
     (if i \<in> set (index df) then Inr (df\<lparr>rows := filter (\<lambda>(l, r). l \<noteq> i) (rows df)\<rparr>)
      else Inl KeyError)"

text \<open>
  \<^verbatim>\<open>df.at[i, c] = v\<close>: writes the cell of the row labelled \<open>i\<close>. A label or a
  column name that the frame does not have makes pandas fall back to \<^verbatim>\<open>.loc\<close>, which
  enlarges the frame before it writes. For an unknown label it appends a row of missing
  cells labelled \<open>i\<close>, which turns every integer column into a float column; for an
  unknown name it appends a column of missing cells of the dtype that holds \<open>v\<close>. Then
  the value is written into its column; when that raises, the frame stays as the
  enlarging left it, and an edit that enlarged nothing leaves it unchanged.
  \<open>at_set\<close> returns the exception raised, if any, and the frame.
\<close>

definition reindex_append :: "DataFrame \<Rightarrow> int \<Rightarrow> DataFrame" where
  "reindex_append df i =
     df\<lparr>dtypes := hold_na \<circ> dtypes df,
        rows := map (\<lambda>(l, r). (l, astype (hold_na \<circ> dtypes df) r)) (rows df) @ [(i, Map.empty)]\<rparr>"

definition insert_column :: "DataFrame \<Rightarrow> string \<Rightarrow> val \<Rightarrow> DataFrame" where
  "insert_column df c v =
     df\<lparr>columns := columns df @ [c],
        dtypes := (dtypes df)(c := hold_na (dtype_of v)),
        rows := map (\<lambda>(l, r). (l, r(c := None))) (rows df)\<rparr>"

definition at_set :: "DataFrame \<Rightarrow> int \<Rightarrow> string \<Rightarrow> val \<Rightarrow> py_error option \<times> DataFrame" where
  "at_set df i c v =
     (let df1 = (if i \<in> set (index df) then df else reindex_append df i);
          df2 = (if c \<in> set (columns df1) then df1 else insert_column df1 c v)
      in case setitem (dtypes df2 c) v of
           Inl e \<Rightarrow> (Some e, df2)
         | Inr w \<Rightarrow>
             (None, df2\<lparr>rows := map (\<lambda>(l, r). if l = i then (l, r(c \<mapsto> w)) else (l, r)) (rows df2)\<rparr>))"

text \<open>
  \<^verbatim>\<open>df.query(...)\<close> for the three shapes of expression the program uses. A name that
  is no column is an UndefinedVariableError; ordering a text against a number is a
  TypeError; a missing cell compares false.
\<close>

fun is_str :: "cell \<Rightarrow> bool" where
  "is_str (Some (StrV s)) = True"
| "is_str _ = False"

fun holds :: "(int \<Rightarrow> bool) \<Rightarrow> cell \<Rightarrow> bool" where
  "holds p (Some (IntV n)) = p n"
| "holds p _ = False"

definition query_compare :: "DataFrame \<Rightarrow> string \<Rightarrow> (int \<Rightarrow> bool) \<Rightarrow> py_error + DataFrame" where
  "query_compare df c p =
     (if c \<notin> set (columns df) then Inl UndefinedVariableError
      else if list_ex (\<lambda>(l, r). is_str (r c)) (rows df) then Inl TypeError
      else Inr (df\<lparr>rows := filter (\<lambda>(l, r). holds p (r c)) (rows df)\<rparr>))"

definition query_notnull :: "DataFrame \<Rightarrow> string \<Rightarrow> py_error + DataFrame" where
  "query_notnull df c =
     (if c \<notin> set (columns df) then Inl UndefinedVariableError
      else Inr (df\<lparr>rows := filter (\<lambda>(l, r). r c \<noteq> None) (rows df)\<rparr>))"

definition query_isin :: "DataFrame \<Rightarrow> string \<Rightarrow> val list \<Rightarrow> py_error + DataFrame" where
  "query_isin df c vs =
     (if c \<notin> set (columns df) then Inl UndefinedVariableError
      else Inr (df\<lparr>rows := filter (\<lambda>(l, r). r c \<in> Some ` set vs) (rows df)\<rparr>))"





definition present :: "DataFrame \<Rightarrow> string \<Rightarrow> val list" where
  "present df c = concat (map (\<lambda>(l, r). case r c of Some v \<Rightarrow> [v] | None \<Rightarrow> []) (rows df))"






section \<open>The program\<close>

text \<open>
  \<open>Dataset\<close> holds the frame read from the CSV file. Its constructor also stores four
  columns of that frame (\<open>date\<close>, \<open>revenue\<close>, \<open>product\<close>, \<open>discounts\<close>); no method
  reads them again, so only \<open>data\<close> is kept. \<open>DataManager\<close> holds the one
  \<open>Dataset\<close>.
\<close>

record Dataset =
  data :: DataFrame

record DataManager =
  dataset :: Dataset

text \<open>
  A method returns its value together with the manager it leaves behind, or the
  exception it raised.
\<close>

type_synonym 'a outcome = "py_error + ('a \<times> DataManager)"

definition get_data :: "Dataset \<Rightarrow> DataFrame" where
  "get_data self = data self"

definition read_data :: "DataManager \<Rightarrow> DataFrame \<times> DataManager" where
  "read_data self = (get_data (dataset self), self)"

definition set_data :: "DataManager \<Rightarrow> DataFrame \<Rightarrow> DataManager" where
  "set_data self df = self\<lparr>dataset := (dataset self)\<lparr>data := df\<rparr>\<rparr>"

definition add_data :: "DataManager \<Rightarrow> dict \<Rightarrow> string outcome" where
  "add_data self new_row_data =
     (let new_row_df = DataFrame_of_records new_row_data
      in case dict_getitem new_row_data ''date'' of
           Inl e \<Rightarrow> Inl e
         | Inr d \<Rightarrow>
             (case getitem (data (dataset self)) ''date'' of
                Inl e \<Rightarrow> Inl e
              | Inr dates \<Rightarrow>
                  if Some d \<in> set dates
                  then Inr (''Duplicate found. Data couldn't be added.'', self)
                  else Inr (''Data added successfully.'',
                            set_data self (concat_ignore_index (data (dataset self)) new_row_df))))"

text \<open>
  \<open>edit_data\<close> writes into the frame the manager holds, so the manager it leaves behind
  holds the frame as \<^verbatim>\<open>.at\<close> left it, also when the assignment raised.
\<close>

definition edit_data ::
  "DataManager \<Rightarrow> int \<Rightarrow> string \<Rightarrow> val \<Rightarrow> (py_error + string) \<times> DataManager" where
  "edit_data self i column new_value =
     (case at_set (data (dataset self)) i column new_value of
        (Some e, df) \<Rightarrow> (Inl e, set_data self df)
      | (None, df) \<Rightarrow> (Inr ''Data edited successfully.'', set_data self df))"

definition delete_data :: "DataManager \<Rightarrow> int \<Rightarrow> string outcome" where
  "delete_data self i =
     (case drop_label (data (dataset self)) i of
        Inl e \<Rightarrow> Inl e
      | Inr df \<Rightarrow> Inr (''Data deleted successfully.'', set_data self (reset_index df)))"


text \<open>
  \<open>filter_data\<close> returns the lines it printed and the value it returned: a frame,
  or Python's \<^verbatim>\<open>None\<close> (here \<open>None\<close>) for a choice outside 1..5.
\<close>

definition returned :: "DataManager \<Rightarrow> py_error + DataFrame \<Rightarrow> (string list \<times> DataFrame option) outcome" where
  "returned self q = (case q of Inl e \<Rightarrow> Inl e | Inr filtered_data \<Rightarrow> Inr (([], Some filtered_data), self))"

definition filter_data :: "DataManager \<Rightarrow> int \<Rightarrow> (string list \<times> DataFrame option) outcome" where
  "filter_data self choice =
     (if choice = 1 then
        returned self (query_compare (data (dataset self)) ''IT'' (\<lambda>n. n \<ge> 30000))
      else if choice = 2 then
        returned self (query_compare (data (dataset self)) ''Marketing'' (\<lambda>n. n < 22000))
      else if choice = 3 then
        returned self (query_notnull (data (dataset self)) ''Finance'')
      else if choice = 4 then
        returned self (query_compare (data (dataset self)) ''Operations'' (\<lambda>n. 25000 \<le> n \<and> n \<le> 30000))
      else if choice = 5 then
        returned self (query_isin (data (dataset self)) ''Month'' [StrV ''January 2023'', StrV ''March 2023''])
      else Inr (([''Invalid choice. No filtering applied.''], None), self))"

subsection \<open>A small table\<close>

text \<open>
  A frame as \<^verbatim>\<open>read_csv\<close> would deliver it: the four columns the \<open>Dataset\<close>
  constructor reads, one expense column, three rows labelled 0, 1, 2.
\<close>

definition example_frame :: DataFrame where
  "example_frame =
     \<lparr>columns = [''date'', ''revenue'', ''product'', ''discounts'', ''IT''],
      dtypes = (\<lambda>c. if c = ''date'' \<or> c = ''product'' then Str else Int64),
      rows =
        [(0, map_of [(''date'', StrV ''2023-01-01''), (''revenue'', IntV 100),
                     (''product'', StrV ''A''), (''discounts'', IntV 5), (''IT'', IntV 29000)]),
         (1, map_of [(''date'', StrV ''2023-01-02''), (''revenue'', IntV 200),
                     (''product'', StrV ''B''), (''discounts'', IntV 0), (''IT'', IntV 30000)]),
         (2, map_of [(''date'', StrV ''2023-01-03''), (''revenue'', IntV 300),
                     (''product'', StrV ''C''), (''discounts'', IntV 7), (''IT'', IntV 31000)])]\<rparr>"

definition example :: DataManager where
  "example = \<lparr>dataset = \<lparr>data = example_frame\<rparr>\<rparr>"

text \<open>The same table after an edit at the label 10, which no row carries.\<close>

definition example_enlarged :: DataManager where
  "example_enlarged = snd (edit_data example 10 ''IT'' (IntV 5))"

text \<open>
  A one-row table whose \<open>revenue\<close> is \<open>2^53 + 1\<close>, the least positive integer a double
  does not represent; a table whose only numeric column holds 10, 20, 30; and a table
  whose columns are all text.
\<close>

definition example_large :: DataManager where
  "example_large =
     \<lparr>dataset = \<lparr>data =
        \<lparr>columns = [''date'', ''revenue'', ''product'', ''discounts''],
         dtypes = (\<lambda>c. if c = ''date'' \<or> c = ''product'' then Str else Int64),
         rows =
           [(0, map_of [(''date'', StrV ''2023-01-01''), (''revenue'', IntV 9007199254740993),
                        (''product'', StrV ''A''), (''discounts'', IntV 5)])]\<rparr>\<rparr>\<rparr>"



subsection \<open>Values that survive\<close>

text \<open>
  An integer of magnitude at most \<open>2^53\<close> is the same in every dtype; \<open>safe_row\<close> says
  that a row holds no other integers. \<open>accepts d v\<close> says that a column of dtype \<open>d\<close>
  stores \<open>v\<close> as it is.
\<close>

fun safe_val :: "val \<Rightarrow> bool" where
  "safe_val (IntV n) \<longleftrightarrow> \<bar>n\<bar> \<le> 2 ^ 53"
| "safe_val (StrV s) \<longleftrightarrow> True"

definition safe_row :: "row \<Rightarrow> bool" where
  "safe_row r \<longleftrightarrow> (\<forall>v \<in> ran r. safe_val v)"

fun accepts :: "dtype \<Rightarrow> val \<Rightarrow> bool" where
  "accepts Int64 (IntV n) \<longleftrightarrow> - (2 ^ 63) \<le> n \<and> n < 2 ^ 63"
| "accepts Float64 (IntV n) \<longleftrightarrow> \<bar>n\<bar> \<le> 2 ^ 53"
| "accepts Str (StrV s) \<longleftrightarrow> True"
| "accepts Object v \<longleftrightarrow> True"
| "accepts d v \<longleftrightarrow> False"

subsection \<open>The schema of a frame\<close>

text \<open>
  A frame has the schema \<open>cols\<close> when these are its columns and no row holds a cell
  under any other name.
\<close>

definition has_schema :: "string list \<Rightarrow> DataFrame \<Rightarrow> bool" where
  "has_schema cols df \<longleftrightarrow> columns df = cols \<and> (\<forall>(l, r) \<in> set (rows df). dom r \<subseteq> set cols)"

section \<open>Facts about the pandas operations\<close>

lemma length_RangeIndex: "length (RangeIndex n) = n"
  by (simp add: RangeIndex_def)

lemma nth_RangeIndex: "i < n \<Longrightarrow> RangeIndex n ! i = int i"
  by (simp add: RangeIndex_def)

lemma distinct_RangeIndex: "distinct (RangeIndex n)"
  by (simp add: RangeIndex_def distinct_map)

lemma filter_label_nth:
  "distinct (map fst xs) \<Longrightarrow> i < length xs \<Longrightarrow>
   filter (\<lambda>p. fst p \<noteq> fst (xs ! i)) xs = take i xs @ drop (Suc i) xs"
proof (induction xs arbitrary: i)
  case Nil
  then show ?case by simp
next
  case (Cons x xs)
  show ?case
  proof (cases i)
    case 0
    have "\<forall>p \<in> set xs. fst p \<noteq> fst x" using Cons.prems(1) by (auto simp: image_iff)
    then have "filter (\<lambda>p. fst p \<noteq> fst x) xs = xs" by (simp add: filter_id_conv)
    with 0 show ?thesis by simp
  next
    case (Suc k)
    then have k: "k < length xs" using Cons.prems(2) by simp
    have "fst x \<notin> fst ` set xs" using Cons.prems(1) by simp
    then have "fst x \<noteq> fst (xs ! k)" using k by (metis nth_mem imageI)
    moreover have "filter (\<lambda>p. fst p \<noteq> fst (xs ! k)) xs = take k xs @ drop (Suc k) xs"
      using Cons.IH [of k] Cons.prems(1) k by simp
    ultimately show ?thesis using Suc by simp
  qed
qed

lemma length_rows_reset_index: "length (rows (reset_index df)) = length (rows df)"
  by (simp add: reset_index_def length_RangeIndex)

lemma index_reset_index: "index (reset_index df) = RangeIndex (length (rows df))"
  by (simp add: reset_index_def index_def length_RangeIndex)

lemma contents_reset_index: "map snd (rows (reset_index df)) = map snd (rows df)"
  by (simp add: reset_index_def length_RangeIndex)

lemma columns_reset_index: "columns (reset_index df) = columns df"
  by (simp add: reset_index_def)

lemma nth_rows_reset_index:
  "i < length (rows df) \<Longrightarrow> rows (reset_index df) ! i = (int i, snd (rows df ! i))"
  by (simp add: reset_index_def length_RangeIndex nth_RangeIndex)

lemma data_set_data: "data (dataset (set_data self df)) = df"
  by (simp add: set_data_def)

lemma index_RangeIndex_nth:
  assumes "index df = RangeIndex N" and "j < N"
  shows "length (rows df) = N" and "fst (rows df ! j) = int j" and "distinct (map fst (rows df))"
proof -
  show len: "length (rows df) = N"
    using assms(1) by (metis index_def length_map length_RangeIndex)
  have "map fst (rows df) ! j = RangeIndex N ! j"
    using assms(1) by (simp add: index_def)
  then show "fst (rows df ! j) = int j"
    using assms(2) len by (simp add: nth_RangeIndex)
  show "distinct (map fst (rows df))"
    using assms(1) by (metis index_def distinct_RangeIndex)
qed

lemma bitlen_eq: "2 ^ k \<le> m \<Longrightarrow> m < 2 ^ Suc k \<Longrightarrow> bitlen m = Suc k"
proof (induction k arbitrary: m)
  case 0
  then have "m = 1" by simp
  then show ?case by (simp add: bitlen.simps)
next
  case (Suc k)
  have "2 ^ k \<le> m div 2" using Suc.prems(1) by simp
  moreover have "m div 2 < 2 ^ Suc k" using Suc.prems(2) by simp
  ultimately have "bitlen (m div 2) = Suc k" by (rule Suc.IH)
  moreover have "(1::nat) \<le> 2 ^ Suc k" by simp
  then have "m \<noteq> 0" using Suc.prems(1) by linarith
  ultimately show ?case by (simp add: bitlen.simps [of m])
qed

lemma f64_two_53_plus_1: "f64 9007199254740993 = 9007199254740992"
proof -
  have "bitlen 9007199254740993 = Suc 53" by (rule bitlen_eq) simp_all
  then show ?thesis by (simp add: f64_def f64_nat_def Let_def)
qed

lemma f64_small: "\<bar>n\<bar> \<le> 2 ^ 53 \<Longrightarrow> f64 n = n"
  by (auto simp: f64_def f64_nat_def)

lemma f64_small_finite: "\<bar>n\<bar> \<le> 2 ^ 53 \<Longrightarrow> \<not> f64_overflows n"
proof -
  assume a: "\<bar>n\<bar> \<le> 2 ^ 53"
  have "(2::int) ^ 53 < 2 ^ 1024" by (rule power_strict_increasing) simp_all
  then show ?thesis using a by (simp add: f64_overflows_def f64_small)
qed

lemma cast_safe: "safe_val v \<Longrightarrow> cast d v = v"
  by (cases "(d, v)" rule: cast.cases) (simp_all add: f64_small)

lemma astype_safe: "safe_row r \<Longrightarrow> astype dts r = r"
proof
  fix c assume s: "safe_row r"
  show "astype dts r c = r c"
  proof (cases "r c")
    case None
    then show ?thesis by (simp add: astype_def)
  next
    case (Some v)
    then have "safe_val v" using s by (auto simp: safe_row_def ran_def)
    then show ?thesis using Some by (simp add: astype_def cast_safe)
  qed
qed

lemma safe_row_map_of: "\<forall>(k, v) \<in> set d. safe_val v \<Longrightarrow> safe_row (map_of d)"
  by (auto simp: safe_row_def ran_def dest: map_of_SomeD)

lemma dom_astype: "dom (astype dts r) = dom r"
  by (auto simp: astype_def dom_def)

lemma astype_None: "r c = None \<Longrightarrow> astype dts r c = None"
  by (simp add: astype_def)

lemma setitem_accepts: "accepts d v \<Longrightarrow> setitem d v = Inr v"
  by (cases "(d, v)" rule: accepts.cases) (simp_all add: f64_small f64_small_finite)

lemma add_data_run:
  assumes "map_of new_row_data ''date'' = Some d"
    and "''date'' \<in> set (columns (data (dataset self)))"
    and "\<forall>(l, r) \<in> set (rows (data (dataset self))). r ''date'' \<noteq> Some d"
  shows "add_data self new_row_data =
           Inr (''Data added successfully.'',
                set_data self (concat_ignore_index (data (dataset self))
                                 (DataFrame_of_records new_row_data)))"
proof -
  have "Some d \<notin> (\<lambda>(l, r). r ''date'') ` set (rows (data (dataset self)))"
    using assms(3) by force
  then show ?thesis
    using assms(1,2) by (simp add: add_data_def dict_getitem_def getitem_def)
qed

lemma contents_concat:
  "map snd (rows (concat_ignore_index a (DataFrame_of_records d)))
     = map (astype (concat_dtype a (DataFrame_of_records d))) (map snd (rows a) @ [map_of d])"
  by (simp add: concat_ignore_index_def contents_reset_index DataFrame_of_records_def
      case_prod_beta comp_def)

lemma length_rows_concat:
  "length (rows (concat_ignore_index a (DataFrame_of_records d))) = length (rows a) + 1"
  by (simp add: concat_ignore_index_def length_rows_reset_index DataFrame_of_records_def)

lemma index_concat:
  "index (concat_ignore_index a (DataFrame_of_records d)) = RangeIndex (length (rows a) + 1)"
  by (simp add: concat_ignore_index_def index_reset_index DataFrame_of_records_def)

lemma nth_contents_concat:
  assumes "j < length (rows a) + 1"
  shows "snd (rows (concat_ignore_index a (DataFrame_of_records d)) ! j)
           = astype (concat_dtype a (DataFrame_of_records d)) ((map snd (rows a) @ [map_of d]) ! j)"
proof -
  let ?df' = "concat_ignore_index a (DataFrame_of_records d)"
  have "snd (rows ?df' ! j) = map snd (rows ?df') ! j"
    using assms by (simp add: length_rows_concat)
  also have "\<dots> = astype (concat_dtype a (DataFrame_of_records d)) ((map snd (rows a) @ [map_of d]) ! j)"
    unfolding contents_concat using assms by (simp only: nth_map length_append length_map list.size)  
  finally show ?thesis .
qed

lemma columns_concat_known:
  assumes "fst ` set d \<subseteq> set (columns a)"
  shows "columns (concat_ignore_index a (DataFrame_of_records d)) = columns a"
proof -
  have "filter (\<lambda>c. c \<notin> set (columns a)) (map fst d) = []"
    using assms by (auto simp: filter_empty_conv)
  then show ?thesis
    by (simp add: concat_ignore_index_def columns_reset_index DataFrame_of_records_def)
qed

lemma has_schema_iff:
  "has_schema cols df \<longleftrightarrow>
     columns df = cols \<and> (\<forall>l r. (l, r) \<in> set (rows df) \<longrightarrow> dom r \<subseteq> set cols)"
  by (simp add: has_schema_def Ball_def)

lemma has_schema_contents:
  "has_schema cols df \<longleftrightarrow> columns df = cols \<and> (\<forall>r \<in> set (map snd (rows df)). dom r \<subseteq> set cols)"
  by (force simp: has_schema_iff)

lemma has_schema_concat:
  assumes "has_schema cols a" and "fst ` set d \<subseteq> set cols"
  shows "has_schema cols (concat_ignore_index a (DataFrame_of_records d))"
proof -
  have "columns a = cols" using assms(1) by (simp add: has_schema_def)
  then have "columns (concat_ignore_index a (DataFrame_of_records d)) = cols"
    using columns_concat_known [of d a] assms(2) by simp
  moreover have "dom (map_of d) \<subseteq> set cols"
    using assms(2) by (simp add: dom_map_of_conv_image_fst)
  ultimately show ?thesis
    using assms(1) unfolding has_schema_contents contents_concat by (auto simp: dom_astype)
qed

lemma contents_reindex_append:
  "map snd (rows (reindex_append df i))
     = map (astype (hold_na \<circ> dtypes df)) (map snd (rows df)) @ [Map.empty]"
  by (simp add: reindex_append_def case_prod_beta comp_def)

lemma index_reindex_append: "index (reindex_append df i) = index df @ [i]"
  by (simp add: reindex_append_def index_def case_prod_beta comp_def)

lemma columns_reindex_append: "columns (reindex_append df i) = columns df"
  by (simp add: reindex_append_def)

lemma has_schema_reindex_append:
  assumes "has_schema cols df"
  shows "has_schema cols (reindex_append df i)"
  using assms unfolding has_schema_contents contents_reindex_append columns_reindex_append
  by (auto simp: dom_astype)

lemma index_write:
  "index (df\<lparr>rows := map (\<lambda>(l, r). if l = i then (l, f r) else (l, r)) (rows df)\<rparr>) = index df"
  by (auto simp: index_def split: prod.splits)

lemma index_insert_column: "index (insert_column df c v) = index df"
  by (simp add: insert_column_def index_def case_prod_beta comp_def)

lemma index_at_set:
  "index (snd (at_set df i c v)) = (if i \<in> set (index df) then index df else index df @ [i])"
proof -
  let ?df1 = "if i \<in> set (index df) then df else reindex_append df i"
  let ?df2 = "if c \<in> set (columns ?df1) then ?df1 else insert_column ?df1 c v"
  have i2: "index ?df2 = (if i \<in> set (index df) then index df else index df @ [i])"
    by (simp add: index_insert_column index_reindex_append)
  show ?thesis
  proof (cases "setitem (dtypes ?df2 c) v")
    case (Inl e)
    then show ?thesis using i2 by (simp add: at_set_def Let_def)
  next
    case (Inr w)
    have "index (snd (at_set df i c v))
            = index (?df2\<lparr>rows := map (\<lambda>(l, r). if l = i then (l, r(c \<mapsto> w)) else (l, r)) (rows ?df2)\<rparr>)"
      using Inr by (simp add: at_set_def Let_def)
    also have "\<dots> = index ?df2" by (rule index_write)
    finally show ?thesis using i2 by simp
  qed
qed

lemma columns_at_set:
  "columns (snd (at_set df i c v)) = (if c \<in> set (columns df) then columns df else columns df @ [c])"
  by (simp add: at_set_def Let_def columns_reindex_append insert_column_def split: sum.splits)

lemma length_rows_index: "length (rows df) = length (index df)"
  by (simp add: index_def)

lemma has_schema_write:
  assumes "has_schema cols df" and "c \<in> set cols"
  shows "has_schema cols
           (df\<lparr>rows := map (\<lambda>(l, r). if l = i then (l, r(c \<mapsto> w)) else (l, r)) (rows df)\<rparr>)"
proof -
  have cols: "columns df = cols" and doms: "\<And>l r. (l, r) \<in> set (rows df) \<Longrightarrow> dom r \<subseteq> set cols"
    using assms(1) by (simp_all add: has_schema_iff)
  have "dom r' \<subseteq> set cols"
    if "(l', r') \<in> set (map (\<lambda>(l, r). if l = i then (l, r(c \<mapsto> w)) else (l, r)) (rows df))"
    for l' r'
  proof -
    from that obtain l r where lr: "(l, r) \<in> set (rows df)"
      and eq: "(l', r') = (if l = i then (l, r(c \<mapsto> w)) else (l, r))"
      by auto
    show ?thesis
      using doms [OF lr] eq assms(2) by (auto split: if_splits)
  qed
  then show ?thesis
    using cols by (simp add: has_schema_iff)
qed

lemma has_schema_at_set:
  assumes "has_schema cols df" and "c \<in> set cols"
  shows "has_schema cols (snd (at_set df i c v))"
proof -
  let ?df1 = "if i \<in> set (index df) then df else reindex_append df i"
  have s1: "has_schema cols ?df1"
    using assms(1) by (simp add: has_schema_reindex_append)
  then have "columns ?df1 = cols" by (simp add: has_schema_iff)
  then have c: "c \<in> set (columns ?df1)" using assms(2) by simp
  show ?thesis
  proof (cases "setitem (dtypes ?df1 c) v")
    case (Inl e)
    then show ?thesis using c s1 by (simp add: at_set_def Let_def)
  next
    case (Inr w)
    then show ?thesis
      using c has_schema_write [OF s1 assms(2), of i w] by (simp add: at_set_def Let_def)
  qed
qed

lemma data_edit_data: "data (dataset (snd (edit_data self i c v))) = snd (at_set (data (dataset self)) i c v)"
  by (simp add: edit_data_def data_set_data split: prod.splits option.splits)

lemma has_schema_drop:
  assumes "has_schema cols df" and "drop_label df i = Inr df'"
  shows "has_schema cols (reset_index df')"
proof -
  have df': "df' = df\<lparr>rows := filter (\<lambda>(l, r). l \<noteq> i) (rows df)\<rparr>"
    using assms(2) by (simp add: drop_label_def split: if_splits)
  have "set (map snd (rows (reset_index df'))) \<subseteq> set (map snd (rows df))"
    unfolding contents_reset_index by (auto simp: df')
  moreover have "columns (reset_index df') = columns df"
    by (simp add: columns_reset_index df')
  ultimately show ?thesis
    using assms(1) unfolding has_schema_contents by blast
qed

lemma delete_data_run:
  assumes "i \<in> set (index (data (dataset self)))"
  shows "delete_data self i =
           Inr (''Data deleted successfully.'',
                set_data self (reset_index ((data (dataset self))
                   \<lparr>rows := filter (\<lambda>(l, r). l \<noteq> i) (rows (data (dataset self)))\<rparr>)))"
  using assms by (simp add: delete_data_def drop_label_def)

lemma holds_iff: "holds p c \<longleftrightarrow> (\<exists>n. c = Some (IntV n) \<and> p n)"
  by (cases "(p, c)" rule: holds.cases) auto

lemma is_str_iff: "is_str c \<longleftrightarrow> (\<exists>s. c = Some (StrV s))"
  by (cases c rule: is_str.cases) auto

lemma safe_row_empty: "safe_row Map.empty"
  by (simp add: safe_row_def)

lemma safe_row_upd: "safe_row r \<Longrightarrow> safe_val v \<Longrightarrow> safe_row (r(k \<mapsto> v))"
  by (auto simp: safe_row_def ran_def split: if_splits)

lemma at_set_in_place:
  assumes "i \<in> set (index df)" and "c \<in> set (columns df)" and "setitem (dtypes df c) v = Inr w"
  shows "at_set df i c v
           = (None, df\<lparr>rows := map (\<lambda>(l, r). if l = i then (l, r(c \<mapsto> w)) else (l, r)) (rows df)\<rparr>)"
  using assms by (simp add: at_set_def Let_def)

lemma at_set_raises:
  assumes "i \<in> set (index df)" and "c \<in> set (columns df)" and "setitem (dtypes df c) v = Inl e"
  shows "at_set df i c v = (Some e, df)"
  using assms by (simp add: at_set_def Let_def)

lemma edit_data_ok:
  "at_set (data (dataset self)) i c v = (None, df)
   \<Longrightarrow> edit_data self i c v = (Inr ''Data edited successfully.'', set_data self df)"
  by (simp add: edit_data_def)

lemma edit_data_raises:
  "at_set (data (dataset self)) i c v = (Some e, df)
   \<Longrightarrow> edit_data self i c v = (Inl e, set_data self df)"
  by (simp add: edit_data_def)

lemma set_data_same: "set_data self (data (dataset self)) = self"
  by (simp add: set_data_def)




lemma f64_two_63_plus_1: "f64 9223372036854775809 = 9223372036854775808"
proof -
  have "bitlen 9223372036854775809 = Suc 63" by (rule bitlen_eq) simp_all
  then show ?thesis by (simp add: f64_def f64_nat_def Let_def)
qed

section \<open>Reading\<close>

text \<open>
  C9. \<open>read_data\<close> is pure and deterministic: it leaves the manager as it was, and a
  second call right after the first returns the same frame.
\<close>

theorem read_data_pure:
  "snd (read_data self) = self \<and>
   fst (read_data (snd (read_data self))) = fst (read_data self)"
  by (simp add: read_data_def)

section \<open>Inserting a row\<close>

text \<open>
  C1. When the \<open>date\<close> of the new row equals the \<open>date\<close> of some row of the table,
  \<open>add_data\<close> answers with the duplicate message and leaves the manager, and so every
  row and cell of the table, exactly as it was.
\<close>

theorem add_data_duplicate:
  assumes "map_of new_row_data ''date'' = Some d"
    and "''date'' \<in> set (columns (data (dataset self)))"
    and "(l, r) \<in> set (rows (data (dataset self)))"
    and "r ''date'' = Some d"
  shows "add_data self new_row_data = Inr (''Duplicate found. Data couldn't be added.'', self)"
proof -
  have "Some d \<in> (\<lambda>(l, r). r ''date'') ` set (rows (data (dataset self)))"
    using assms(3,4) by force
  then show ?thesis
    using assms(1,2) by (simp add: add_data_def dict_getitem_def getitem_def)
qed

theorem add_data_duplicate_witness:
  "add_data example [(''date'', StrV ''2023-01-02''), (''revenue'', IntV 1)]
     = Inr (''Duplicate found. Data couldn't be added.'', example)"
proof -
  have r: "(1, map_of [(''date'', StrV ''2023-01-02''), (''revenue'', IntV 200),
                     (''product'', StrV ''B''), (''discounts'', IntV 0), (''IT'', IntV 30000)])
        \<in> set (rows (data (dataset example)))"
    by (simp add: example_def example_frame_def)
  have c: "''date'' \<in> set (columns (data (dataset example)))"
    by (simp add: example_def example_frame_def)
  show ?thesis
    by (rule add_data_duplicate [OF _ c r]) simp_all
qed

text \<open>
  C2, as amended. When the \<open>date\<close> of the new row occurs in no row of the table, and
  every integer in the table and in the mapping has a magnitude of at most \<open>2^53\<close>,
  \<open>add_data\<close> answers with the success message; the table has one row more, its rows
  are labelled 0, 1, ... again, the new row is the last one (at the position of the old
  row count) and holds the cells of the mapping, and every earlier row holds the same
  cells at the same position.
\<close>

theorem add_data_fresh:
  assumes "map_of new_row_data ''date'' = Some d"
    and "''date'' \<in> set (columns (data (dataset self)))"
    and "\<forall>(l, r) \<in> set (rows (data (dataset self))). r ''date'' \<noteq> Some d"
    and "\<forall>(l, r) \<in> set (rows (data (dataset self))). safe_row r"
    and "\<forall>(k, v) \<in> set new_row_data. safe_val v"
  shows "\<exists>self'. add_data self new_row_data = Inr (''Data added successfully.'', self')
           \<and> length (rows (data (dataset self'))) = length (rows (data (dataset self))) + 1
           \<and> index (data (dataset self')) = RangeIndex (length (rows (data (dataset self))) + 1)
           \<and> snd (rows (data (dataset self')) ! length (rows (data (dataset self)))) = map_of new_row_data
           \<and> (\<forall>i < length (rows (data (dataset self))).
                 snd (rows (data (dataset self')) ! i) = snd (rows (data (dataset self)) ! i))"
proof -
  let ?df = "data (dataset self)"
  let ?df' = "concat_ignore_index ?df (DataFrame_of_records new_row_data)"
  let ?dts = "concat_dtype ?df (DataFrame_of_records new_row_data)"
  have run: "add_data self new_row_data = Inr (''Data added successfully.'', set_data self ?df')"
    by (rule add_data_run [OF assms(1,2,3)])
  have len: "length (rows ?df') = length (rows ?df) + 1"
    by (rule length_rows_concat)
  have idx: "index ?df' = RangeIndex (length (rows ?df) + 1)"
    by (rule index_concat)
  have "safe_row (map_of new_row_data)"
    by (rule safe_row_map_of [OF assms(5)])
  then have last: "snd (rows ?df' ! length (rows ?df)) = map_of new_row_data"
    using nth_contents_concat [of "length (rows ?df)" ?df new_row_data]
    by (simp add: nth_append astype_safe)
  have old: "\<forall>i < length (rows ?df). snd (rows ?df' ! i) = snd (rows ?df ! i)"
  proof (intro allI impI)
    fix i assume i: "i < length (rows ?df)"
    then have "rows ?df ! i \<in> set (rows ?df)" by simp
    then have "safe_row (snd (rows ?df ! i))"
      using assms(4) by (auto simp: case_prod_beta)
    then show "snd (rows ?df' ! i) = snd (rows ?df ! i)"
      using nth_contents_concat [of i ?df new_row_data] i by (simp add: nth_append astype_safe)
  qed
  show ?thesis
    using run len idx last old by (simp add: data_set_data)
qed

theorem add_data_fresh_witness:
  "\<exists>self'. add_data example [(''date'', StrV ''2023-01-09''), (''IT'', IntV 1)]
              = Inr (''Data added successfully.'', self')
     \<and> length (rows (data (dataset self'))) = 4
     \<and> index (data (dataset self')) = RangeIndex 4
     \<and> snd (rows (data (dataset self')) ! 3) = map_of [(''date'', StrV ''2023-01-09''), (''IT'', IntV 1)]
     \<and> (\<forall>i < 3. snd (rows (data (dataset self')) ! i) = snd (rows (data (dataset example)) ! i))"
proof -
  have h1: "map_of [(''date'', StrV ''2023-01-09''), (''IT'', IntV 1)] ''date'' = Some (StrV ''2023-01-09'')"
    by simp
  have h2: "''date'' \<in> set (columns (data (dataset example)))"
    by (simp add: example_def example_frame_def)
  have h3: "\<forall>(l, r) \<in> set (rows (data (dataset example))). r ''date'' \<noteq> Some (StrV ''2023-01-09'')"
    by (simp add: example_def example_frame_def)
  have h4: "\<forall>(l, r) \<in> set (rows (data (dataset example))). safe_row r"
    by (simp add: example_def example_frame_def safe_row_upd safe_row_empty)
  have h5: "\<forall>(k, v) \<in> set [(''date'', StrV ''2023-01-09''), (''IT'', IntV 1)]. safe_val v"
    by simp
  have n: "length (rows (data (dataset example))) = 3"
    by (simp add: example_def example_frame_def)
  show ?thesis
    using add_data_fresh [OF h1 h2 h3 h4 h5] by (simp add: n)
qed

text \<open>
  C2 as stated speaks of every table and every mapping. An integer column that the
  mapping leaves out becomes a float column, which rounds a \<open>revenue\<close> of \<open>2^53 + 1\<close>
  in an earlier row to \<open>2^53\<close>; and a new \<open>revenue\<close> of \<open>2^63 + 1\<close>, beyond the
  integers of 64 bits, makes the column a float column and is stored as \<open>2^63\<close>.
\<close>

theorem add_data_fresh_counterexample:
  "cell_at (data (dataset example_large)) 0 ''revenue'' = Some (IntV 9007199254740993)
   \<and> cell_at (data (dataset (snd (projr (add_data example_large [(''date'', StrV ''2023-01-09'')])))))
        0 ''revenue'' = Some (IntV 9007199254740992)
   \<and> cell_at (data (dataset (snd (projr (add_data example
          [(''date'', StrV ''2023-01-09''), (''revenue'', IntV 9223372036854775809)])))))
        3 ''revenue'' = Some (IntV 9223372036854775808)"
proof -
  let ?df = "data (dataset example_large)"
  let ?new = "[(''date'', StrV ''2023-01-09'')]"
  have before: "cell_at ?df 0 ''revenue'' = Some (IntV 9007199254740993)"
    by (simp add: example_large_def cell_at_def)
  have run: "add_data example_large ?new
            = Inr (''Data added successfully.'',
                   set_data example_large (concat_ignore_index ?df (DataFrame_of_records ?new)))"
    by (rule add_data_run [where d = "StrV ''2023-01-09''"]) (simp_all add: example_large_def)
  have dt: "concat_dtype ?df (DataFrame_of_records ?new) ''revenue'' = Float64"
    by (simp add: concat_dtype_def DataFrame_of_records_def example_large_def)
  have "snd (rows (concat_ignore_index ?df (DataFrame_of_records ?new)) ! 0)
          = astype (concat_dtype ?df (DataFrame_of_records ?new)) (snd (rows ?df ! 0))"
    using nth_contents_concat [of 0 ?df ?new] by (simp add: example_large_def)
  then have "cell_at (concat_ignore_index ?df (DataFrame_of_records ?new)) 0 ''revenue''
               = Some (IntV 9007199254740992)"
    using before by (simp add: cell_at_def astype_def dt f64_two_53_plus_1)
  then have old: "cell_at (data (dataset (snd (projr (add_data example_large ?new))))) 0 ''revenue''
               = Some (IntV 9007199254740992)"
    using run by (simp add: data_set_data)
  let ?ex = "data (dataset example)"
  let ?big = "[(''date'', StrV ''2023-01-09''), (''revenue'', IntV 9223372036854775809)]"
  have run2: "add_data example ?big
            = Inr (''Data added successfully.'',
                   set_data example (concat_ignore_index ?ex (DataFrame_of_records ?big)))"
    by (rule add_data_run [where d = "StrV ''2023-01-09''"])
       (simp_all add: example_def example_frame_def)
  have dt2: "concat_dtype ?ex (DataFrame_of_records ?big) ''revenue'' = Float64"
    by (simp add: concat_dtype_def DataFrame_of_records_def example_def example_frame_def
        common_dtype_def is_numeric_def)
  have n: "length (rows ?ex) = 3"
    by (simp add: example_def example_frame_def)
  have "snd (rows (concat_ignore_index ?ex (DataFrame_of_records ?big)) ! 3)
          = astype (concat_dtype ?ex (DataFrame_of_records ?big)) (map_of ?big)"
    using nth_contents_concat [of 3 ?ex ?big] n by (simp add: nth_append)
  then have "cell_at (concat_ignore_index ?ex (DataFrame_of_records ?big)) 3 ''revenue''
               = Some (IntV 9223372036854775808)"
    by (simp add: cell_at_def astype_def dt2 f64_two_63_plus_1)
  then have new: "cell_at (data (dataset (snd (projr (add_data example ?big))))) 3 ''revenue''
               = Some (IntV 9223372036854775808)"
    using run2 by (simp add: data_set_data)
  show ?thesis using before old new by simp
qed

section \<open>Editing a cell\<close>

text \<open>
  C8, as amended. For a table of \<open>N\<close> rows labelled 0 .. N-1, an index \<open>i\<close> in range, a
  column \<open>c\<close> of the table and a value \<open>v\<close> that the dtype of this column stores as it is
  (an integer of 64 bits for an integer column, an integer of magnitude at most \<open>2^53\<close>
  for a float column, a text for a text column, anything for an object column),
  \<open>edit_data\<close> answers with the success message and writes \<open>v\<close> into the cell at row
  \<open>i\<close>, column \<open>c\<close>; the columns, the labels, the row count and every other cell are
  as before.
\<close>

theorem edit_data_in_place:
  assumes "index (data (dataset self)) = RangeIndex N" and "0 \<le> i" and "i < int N"
    and "c \<in> set (columns (data (dataset self)))"
    and "accepts (dtypes (data (dataset self)) c) v"
  shows "fst (edit_data self i c v) = Inr ''Data edited successfully.''
       \<and> columns (data (dataset (snd (edit_data self i c v)))) = columns (data (dataset self))
       \<and> index (data (dataset (snd (edit_data self i c v)))) = index (data (dataset self))
       \<and> length (rows (data (dataset (snd (edit_data self i c v))))) = N
       \<and> cell_at (data (dataset (snd (edit_data self i c v)))) (nat i) c = Some v
       \<and> (\<forall>j c'. j < N \<and> (j \<noteq> nat i \<or> c' \<noteq> c) \<longrightarrow>
             cell_at (data (dataset (snd (edit_data self i c v)))) j c' = cell_at (data (dataset self)) j c')"
proof -
  let ?df = "data (dataset self)"
  let ?rs = "rows ?df"
  let ?f = "\<lambda>(l, r). if l = i then (l, r(c \<mapsto> v)) else (l, r :: row)"
  let ?df' = "?df\<lparr>rows := map ?f ?rs\<rparr>"
  have k: "nat i < N" using assms(2,3) by simp
  note facts = index_RangeIndex_nth [OF assms(1)]
  have len: "length ?rs = N" by (rule facts(1) [OF k])
  have lab: "fst (?rs ! j) = int j" if "j < N" for j by (rule facts(2) [OF that])
  have "i \<in> set (RangeIndex N)"
    using k assms(2) by (metis nth_RangeIndex length_RangeIndex nth_mem int_nat_eq)
  then have present: "i \<in> set (index ?df)" by (simp add: assms(1))
  have "at_set ?df i c v = (None, ?df')"
    by (rule at_set_in_place [OF present assms(4) setitem_accepts [OF assms(5)]])
  then have run: "edit_data self i c v = (Inr ''Data edited successfully.'', set_data self ?df')"
    by (rule edit_data_ok)
  have idx: "index ?df' = index ?df"
    by (rule index_write)
  have nth: "map ?f ?rs ! j = ?f (?rs ! j)" if "j < N" for j
    using that len by simp
  have hit: "cell_at ?df' (nat i) c = Some v"
    using nth [OF k] lab [OF k] assms(2) by (simp add: cell_at_def case_prod_beta)
  have frame: "\<forall>j c'. j < N \<and> (j \<noteq> nat i \<or> c' \<noteq> c) \<longrightarrow> cell_at ?df' j c' = cell_at ?df j c'"
  proof (intro allI impI)
    fix j c' assume a: "j < N \<and> (j \<noteq> nat i \<or> c' \<noteq> c)"
    then have j: "j < N" by simp
    have "int j = i \<longleftrightarrow> j = nat i" using assms(2) by auto
    then show "cell_at ?df' j c' = cell_at ?df j c'"
      using a nth [OF j] lab [OF j] by (auto simp: cell_at_def case_prod_beta)
  qed
  show ?thesis
    using run idx len hit frame by (simp add: data_set_data)
qed

theorem edit_data_in_place_witness:
  "fst (edit_data example 1 ''IT'' (IntV 7)) = Inr ''Data edited successfully.''
   \<and> length (rows (data (dataset (snd (edit_data example 1 ''IT'' (IntV 7)))))) = 3
   \<and> cell_at (data (dataset (snd (edit_data example 1 ''IT'' (IntV 7))))) 1 ''IT'' = Some (IntV 7)
   \<and> cell_at (data (dataset (snd (edit_data example 1 ''IT'' (IntV 7))))) 1 ''date''
       = cell_at (data (dataset example)) 1 ''date''
   \<and> cell_at (data (dataset (snd (edit_data example 1 ''IT'' (IntV 7))))) 2 ''IT''
       = cell_at (data (dataset example)) 2 ''IT''"
proof -
  have h: "index (data (dataset example)) = RangeIndex 3"
    by (simp add: example_def example_frame_def index_def RangeIndex_def upt_rec)
  have c: "''IT'' \<in> set (columns (data (dataset example)))"
    by (simp add: example_def example_frame_def)
  have a: "accepts (dtypes (data (dataset example)) ''IT'') (IntV 7)"
    by (simp add: example_def example_frame_def)
  note t = edit_data_in_place [OF h _ _ c a, of 1]
  have t': "fst (edit_data example 1 ''IT'' (IntV 7)) = Inr ''Data edited successfully.''"
    "length (rows (data (dataset (snd (edit_data example 1 ''IT'' (IntV 7)))))) = 3"
    "cell_at (data (dataset (snd (edit_data example 1 ''IT'' (IntV 7))))) (nat 1) ''IT'' = Some (IntV 7)"
    "\<forall>j c'. j < 3 \<and> (j \<noteq> nat 1 \<or> c' \<noteq> ''IT'') \<longrightarrow>
       cell_at (data (dataset (snd (edit_data example 1 ''IT'' (IntV 7))))) j c'
         = cell_at (data (dataset example)) j c'"
    using t by simp_all
  from t'(4) [rule_format, of 1 "''date''"] t'(4) [rule_format, of 2 "''IT''"] t'(1,2,3)
  show ?thesis by simp
qed

text \<open>
  C8 as stated speaks of every table and every value. In the table whose four rows are
  labelled 0, 1, 2, 10, the index 3 is in range, yet no row carries the label 3: the edit
  adds a fifth row instead of overwriting a cell. And in the table labelled 0, 1, 2 the
  value \<open>2^63\<close> does not fit the integer column \<open>IT\<close>: the edit raises and leaves the
  table as it was.
\<close>

theorem edit_data_in_range_counterexample:
  "index (data (dataset example_enlarged)) = [0, 1, 2, 10]
   \<and> length (rows (data (dataset example_enlarged))) = 4
   \<and> length (rows (data (dataset (snd (edit_data example_enlarged 3 ''IT'' (IntV 7)))))) = 5
   \<and> fst (edit_data example 1 ''IT'' (IntV 9223372036854775808)) = Inl AssertionError
   \<and> snd (edit_data example 1 ''IT'' (IntV 9223372036854775808)) = example"
proof -
  have "index (data (dataset example)) = [0, 1, 2]"
    by (simp add: example_def example_frame_def index_def)
  then have i: "index (data (dataset example_enlarged)) = [0, 1, 2, 10]"
    by (simp add: example_enlarged_def data_edit_data index_at_set)
  then have l: "length (rows (data (dataset example_enlarged))) = 4"
    by (simp add: length_rows_index)
  have "index (data (dataset (snd (edit_data example_enlarged 3 ''IT'' (IntV 7))))) = [0, 1, 2, 10, 3]"
    using i by (simp add: data_edit_data index_at_set)
  then have g: "length (rows (data (dataset (snd (edit_data example_enlarged 3 ''IT'' (IntV 7)))))) = 5"
    by (simp add: length_rows_index)
  have "at_set (data (dataset example)) 1 ''IT'' (IntV 9223372036854775808)
          = (Some AssertionError, data (dataset example))"
    by (rule at_set_raises) (simp_all add: example_def example_frame_def index_def)
  then have "edit_data example 1 ''IT'' (IntV 9223372036854775808)
          = (Inl AssertionError, set_data example (data (dataset example)))"
    by (rule edit_data_raises)
  then have r: "edit_data example 1 ''IT'' (IntV 9223372036854775808) = (Inl AssertionError, example)"
    by (simp add: set_data_same)
  show ?thesis using i l g r by simp
qed




section \<open>Deleting a row\<close>

text \<open>
  C3, as amended. For a table of \<open>N\<close> rows labelled 0 .. N-1 (the labelling that loading,
  inserting and deleting establish) and an index \<open>i\<close> in range, \<open>delete_data\<close> succeeds
  and leaves \<open>N - 1\<close> rows labelled 0 .. N-2: the rows before \<open>i\<close> are untouched, and each
  row after \<open>i\<close> has moved one position down with its cells unchanged.
\<close>

theorem delete_data_renumbers:
  assumes "index (data (dataset self)) = RangeIndex N" and "0 \<le> i" and "i < int N"
  shows "\<exists>self'. delete_data self i = Inr (''Data deleted successfully.'', self')
           \<and> columns (data (dataset self')) = columns (data (dataset self))
           \<and> length (rows (data (dataset self'))) = N - 1
           \<and> index (data (dataset self')) = RangeIndex (N - 1)
           \<and> (\<forall>j < nat i. rows (data (dataset self')) ! j = rows (data (dataset self)) ! j)
           \<and> (\<forall>j. nat i < j \<and> j < N \<longrightarrow>
                  rows (data (dataset self')) ! (j - 1) = (int (j - 1), snd (rows (data (dataset self)) ! j)))"
proof -
  let ?df = "data (dataset self)"
  let ?rs = "rows ?df"
  let ?k = "nat i"
  let ?kept = "take ?k ?rs @ drop (Suc ?k) ?rs"
  let ?df' = "reset_index (?df\<lparr>rows := ?kept\<rparr>)"
  have k: "?k < N" using assms(2,3) by simp
  note facts = index_RangeIndex_nth [OF assms(1)]
  have len: "length ?rs = N" by (rule facts(1) [OF k])
  have lab: "fst (?rs ! ?k) = i" using facts(2) [OF k] assms(2) by simp
  have dist: "distinct (map fst ?rs)" by (rule facts(3) [OF k])
  have "i \<in> set (map fst ?rs)"
    using lab k len by (metis nth_mem length_map nth_map)
  then have present: "i \<in> set (index ?df)" by (simp add: index_def)
  have "filter (\<lambda>p. fst p \<noteq> fst (?rs ! ?k)) ?rs = ?kept"
    using filter_label_nth [OF dist] k len by simp
  moreover have "(\<lambda>(l, r). l \<noteq> i) = (\<lambda>p :: int \<times> row. fst p \<noteq> i)"
    by auto
  ultimately have kept: "filter (\<lambda>(l, r). l \<noteq> i) ?rs = ?kept"
    by (simp add: lab)
  have run: "delete_data self i = Inr (''Data deleted successfully.'', set_data self ?df')"
    using present kept by (simp add: delete_data_def drop_label_def)
  have lenk: "length ?kept = N - 1" using k len by simp
  have cols: "columns ?df' = columns ?df" by (simp add: columns_reset_index)
  have len': "length (rows ?df') = N - 1" using lenk by (simp add: length_rows_reset_index)
  have idx': "index ?df' = RangeIndex (N - 1)" using lenk by (simp add: index_reset_index)
  have nth': "rows ?df' ! j = (int j, snd (?kept ! j))" if "j < N - 1" for j
    using nth_rows_reset_index [of j "?df\<lparr>rows := ?kept\<rparr>"] that lenk by simp
  have before: "\<forall>j < ?k. rows ?df' ! j = ?rs ! j"
  proof (intro allI impI)
    fix j assume j: "j < ?k"
    then have jN: "j < N" and jN1: "j < N - 1" using k by simp_all
    have "?kept ! j = ?rs ! j" using j len k by (simp add: nth_append)
    moreover have "fst (?rs ! j) = int j" by (rule facts(2) [OF jN])
    ultimately show "rows ?df' ! j = ?rs ! j"
      using nth' [OF jN1] by (metis prod.collapse)
  qed
  have after: "\<forall>j. ?k < j \<and> j < N \<longrightarrow> rows ?df' ! (j - 1) = (int (j - 1), snd (?rs ! j))"
  proof (intro allI impI)
    fix j assume j: "?k < j \<and> j < N"
    then have j1: "j - 1 < N - 1" by arith
    have ge: "\<not> j - 1 < ?k" using j by arith
    have "?kept ! (j - 1) = drop (Suc ?k) ?rs ! (j - 1 - ?k)"
      using ge j len by (simp add: nth_append)
    also have "\<dots> = ?rs ! (Suc ?k + (j - 1 - ?k))"
      using j len by simp
    also have "Suc ?k + (j - 1 - ?k) = j" using j by simp
    finally show "rows ?df' ! (j - 1) = (int (j - 1), snd (?rs ! j))"
      using nth' [OF j1] by simp
  qed
  show ?thesis
    using run cols len' idx' before after by (simp add: data_set_data)
qed

theorem delete_data_renumbers_witness:
  "\<exists>self'. delete_data example 1 = Inr (''Data deleted successfully.'', self')
     \<and> length (rows (data (dataset self'))) = 2
     \<and> index (data (dataset self')) = RangeIndex 2
     \<and> rows (data (dataset self')) ! 0 = rows (data (dataset example)) ! 0
     \<and> rows (data (dataset self')) ! 1 = (1, snd (rows (data (dataset example)) ! 2))"
proof -
  have h: "index (data (dataset example)) = RangeIndex 3"
    by (simp add: example_def example_frame_def index_def RangeIndex_def upt_rec)
  obtain self' where s: "delete_data example 1 = Inr (''Data deleted successfully.'', self')"
    "length (rows (data (dataset self'))) = 3 - 1"
    "index (data (dataset self')) = RangeIndex (3 - 1)"
    "\<forall>j < nat 1. rows (data (dataset self')) ! j = rows (data (dataset example)) ! j"
    "\<forall>j. nat 1 < j \<and> j < 3 \<longrightarrow>
        rows (data (dataset self')) ! (j - 1) = (int (j - 1), snd (rows (data (dataset example)) ! j))"
    using delete_data_renumbers [OF h, of 1] by auto
  from s(4) have a: "rows (data (dataset self')) ! 0 = rows (data (dataset example)) ! 0" by simp
  from s(5) [rule_format, of 2]
  have b: "rows (data (dataset self')) ! 1 = (1, snd (rows (data (dataset example)) ! 2))"
    by simp
  show ?thesis using s(1,2,3) a b by simp
qed

text \<open>
  C3 as stated speaks of every table. After an edit at a label no row carries, the four
  rows of the table are labelled 0, 1, 2, 10; deleting at index 3, which is in range,
  raises KeyError.
\<close>

theorem delete_data_in_range_counterexample:
  "index (data (dataset example_enlarged)) = [0, 1, 2, 10]
   \<and> length (rows (data (dataset example_enlarged))) = 4
   \<and> delete_data example_enlarged 3 = Inl KeyError"
proof -
  have "index (data (dataset example)) = [0, 1, 2]"
    by (simp add: example_def example_frame_def index_def)
  then have i: "index (data (dataset example_enlarged)) = [0, 1, 2, 10]"
    by (simp add: example_enlarged_def data_edit_data index_at_set)
  then have "length (rows (data (dataset example_enlarged))) = 4"
    by (simp add: length_rows_index)
  moreover have "delete_data example_enlarged 3 = Inl KeyError"
    using i by (simp add: delete_data_def drop_label_def)
  ultimately show ?thesis using i by simp
qed

section \<open>Filtering\<close>

text \<open>
  C4, as amended. For a choice outside 1..5, \<open>filter_data\<close> prints one line and returns
  Python's \<^verbatim>\<open>None\<close>: no frame at all, rather than a frame without rows. It raises
  nothing and leaves the manager as it was.
\<close>

theorem filter_data_invalid_choice:
  assumes "choice < 1 \<or> 5 < choice"
  shows "filter_data self choice = Inr (([''Invalid choice. No filtering applied.''], None), self)"
  using assms by (auto simp: filter_data_def)

theorem filter_data_invalid_choice_witness:
  "filter_data example 99 = Inr (([''Invalid choice. No filtering applied.''], None), example)"
  using filter_data_invalid_choice [of 99 example] by simp

text \<open>
  C4 as stated has the call return an empty table. At the choice 99 the value returned
  is \<open>None\<close>, which is not a frame.
\<close>

theorem filter_data_invalid_choice_counterexample:
  "snd (fst (projr (filter_data example 99))) = None
   \<and> snd (fst (projr (filter_data example 99))) \<noteq> Some (example_frame\<lparr>rows := []\<rparr>)"
  by (simp add: filter_data_def)

text \<open>
  C5. On a table with a column \<open>IT\<close> that holds no text, \<open>filter_data\<close> with choice 1
  prints nothing and returns the frame of exactly those rows, in their order and under
  their labels, whose \<open>IT\<close> cell is a number of at least 30000; the bound itself is
  included. Over the \<open>IT\<close> values 29000, 30000, 31000 these are the rows with 30000 and
  31000.
\<close>

theorem filter_data_IT:
  assumes "''IT'' \<in> set (columns (data (dataset self)))"
    and "\<forall>(l, r) \<in> set (rows (data (dataset self))). \<forall>s. r ''IT'' \<noteq> Some (StrV s)"
  shows "filter_data self 1 =
           Inr (([], Some ((data (dataset self))
                    \<lparr>rows := filter (\<lambda>(l, r). \<exists>n. r ''IT'' = Some (IntV n) \<and> 30000 \<le> n)
                                     (rows (data (dataset self)))\<rparr>)),
                self)"
proof -
  have "\<not> list_ex (\<lambda>(l, r). is_str (r ''IT'')) (rows (data (dataset self)))"
    using assms(2) by (auto simp: list_ex_iff is_str_iff)
  then show ?thesis
    using assms(1) by (simp add: filter_data_def returned_def query_compare_def holds_iff)
qed

theorem filter_data_IT_witness:
  "\<exists>t. filter_data example 1 = Inr (([], Some t), example)
      \<and> map (\<lambda>(l, r). r ''IT'') (rows (data (dataset example)))
          = [Some (IntV 29000), Some (IntV 30000), Some (IntV 31000)]
      \<and> map (\<lambda>(l, r). (l, r ''IT'')) (rows t) = [(1, Some (IntV 30000)), (2, Some (IntV 31000))]"
proof -
  have h1: "''IT'' \<in> set (columns (data (dataset example)))"
    by (simp add: example_def example_frame_def)
  have h2: "\<forall>(l, r) \<in> set (rows (data (dataset example))). \<forall>s. r ''IT'' \<noteq> Some (StrV s)"
    by (simp add: example_def example_frame_def)
  have rs: "rows (data (dataset example)) = rows example_frame"
    by (simp add: example_def)
  show ?thesis
    unfolding filter_data_IT [OF h1 h2] rs
    by (simp add: example_frame_def)
qed

section \<open>The schema under the mutating operations\<close>

text \<open>
  C7, as amended. Let the table have the schema \<open>cols\<close>. Then it still has it after
  \<open>add_data\<close> with a mapping whose keys are all among \<open>cols\<close>, after \<open>edit_data\<close> at a
  column among \<open>cols\<close>, and after every \<open>delete_data\<close> that succeeds. Moreover an insert
  whose keys are among \<open>cols\<close> and whose \<open>date\<close> is in no row succeeds, adds no column,
  and leaves every field the mapping omits absent in the new row.
\<close>

theorem schema_preserved:
  assumes "has_schema cols (data (dataset self))"
  shows "(\<forall>msg self'. fst ` set new_row_data \<subseteq> set cols \<and> add_data self new_row_data = Inr (msg, self')
             \<longrightarrow> has_schema cols (data (dataset self')))
       \<and> (c \<in> set cols \<longrightarrow> has_schema cols (data (dataset (snd (edit_data self i c v)))))
       \<and> (\<forall>msg self'. delete_data self j = Inr (msg, self') \<longrightarrow> has_schema cols (data (dataset self')))
       \<and> (\<forall>d. fst ` set new_row_data \<subseteq> set cols \<and> map_of new_row_data ''date'' = Some d
                \<and> (\<forall>(l, r) \<in> set (rows (data (dataset self))). r ''date'' \<noteq> Some d)
             \<longrightarrow> (\<exists>self'. add_data self new_row_data = Inr (''Data added successfully.'', self')
                    \<and> columns (data (dataset self')) = cols
                    \<and> (\<forall>k. k \<notin> fst ` set new_row_data \<longrightarrow>
                          cell_at (data (dataset self')) (length (rows (data (dataset self)))) k = None)))"
proof (intro conjI allI impI)
  fix msg self'
  assume a: "fst ` set new_row_data \<subseteq> set cols \<and> add_data self new_row_data = Inr (msg, self')"
  then have "self' = self \<or>
      self' = set_data self (concat_ignore_index (data (dataset self)) (DataFrame_of_records new_row_data))"
    by (auto simp: add_data_def Let_def split: sum.splits if_splits)
  then show "has_schema cols (data (dataset self'))"
    using assms a has_schema_concat [of cols "data (dataset self)" new_row_data]
    by (auto simp: data_set_data)
next
  assume "c \<in> set cols"
  then show "has_schema cols (data (dataset (snd (edit_data self i c v))))"
    using assms by (simp add: data_edit_data has_schema_at_set)
next
  fix msg self'
  assume "delete_data self j = Inr (msg, self')"
  then obtain df' where "drop_label (data (dataset self)) j = Inr df'"
    and "self' = set_data self (reset_index df')"
    by (auto simp: delete_data_def split: sum.splits)
  then show "has_schema cols (data (dataset self'))"
    using assms has_schema_drop by (simp add: data_set_data)
next
  fix d
  assume a: "fst ` set new_row_data \<subseteq> set cols \<and> map_of new_row_data ''date'' = Some d
     \<and> (\<forall>(l, r) \<in> set (rows (data (dataset self))). r ''date'' \<noteq> Some d)"
  let ?df = "data (dataset self)"
  let ?df' = "concat_ignore_index ?df (DataFrame_of_records new_row_data)"
  have cols: "columns ?df = cols" using assms by (simp add: has_schema_def)
  have "''date'' \<in> fst ` set new_row_data"
    using a by (metis map_of_eq_None_iff option.distinct(1))
  then have date: "''date'' \<in> set (columns ?df)" using a cols by auto
  have run: "add_data self new_row_data = Inr (''Data added successfully.'', set_data self ?df')"
    using add_data_run [OF _ date] a by blast
  have cols': "columns ?df' = cols"
    using columns_concat_known [of new_row_data ?df] a cols by simp
  have new: "snd (rows ?df' ! length (rows ?df))
               = astype (concat_dtype ?df (DataFrame_of_records new_row_data)) (map_of new_row_data)"
    using nth_contents_concat [of "length (rows ?df)" ?df new_row_data] by (simp add: nth_append)
  have absent: "\<forall>k. k \<notin> fst ` set new_row_data \<longrightarrow> cell_at ?df' (length (rows ?df)) k = None"
    by (simp add: cell_at_def new astype_None map_of_eq_None_iff)
  show "\<exists>self'. add_data self new_row_data = Inr (''Data added successfully.'', self')
          \<and> columns (data (dataset self')) = cols
          \<and> (\<forall>k. k \<notin> fst ` set new_row_data \<longrightarrow>
                cell_at (data (dataset self')) (length (rows (data (dataset self)))) k = None)"
    using run cols' absent by (simp add: data_set_data)
qed

theorem schema_preserved_witness:
  "has_schema [''date'', ''revenue'', ''product'', ''discounts'', ''IT''] (data (dataset example))
   \<and> has_schema [''date'', ''revenue'', ''product'', ''discounts'', ''IT'']
        (data (dataset (snd (edit_data example 0 ''IT'' (IntV 1)))))
   \<and> (\<exists>self'. delete_data example 1 = Inr (''Data deleted successfully.'', self')
         \<and> has_schema [''date'', ''revenue'', ''product'', ''discounts'', ''IT''] (data (dataset self')))
   \<and> (\<exists>self'. add_data example [(''date'', StrV ''2023-01-09''), (''IT'', IntV 1)]
                 = Inr (''Data added successfully.'', self')
         \<and> has_schema [''date'', ''revenue'', ''product'', ''discounts'', ''IT''] (data (dataset self'))
         \<and> cell_at (data (dataset self')) 3 ''revenue'' = None)"
proof -
  let ?cols = "[''date'', ''revenue'', ''product'', ''discounts'', ''IT'']"
  let ?new = "[(''date'', StrV ''2023-01-09''), (''IT'', IntV 1)]"
  have h: "has_schema ?cols (data (dataset example))"
    by (simp add: has_schema_iff example_def example_frame_def)
  note t = schema_preserved [OF h, of ?new "''IT''" 0 "IntV 1" 1]
  note tA = t [THEN conjunct1, rule_format]
  note tE = t [THEN conjunct2, THEN conjunct1, rule_format]
  note tD = t [THEN conjunct2, THEN conjunct2, THEN conjunct1, rule_format]
  note tN = t [THEN conjunct2, THEN conjunct2, THEN conjunct2, rule_format]
  have e: "has_schema ?cols (data (dataset (snd (edit_data example 0 ''IT'' (IntV 1)))))"
    by (rule tE) simp
  have "1 \<in> set (index (data (dataset example)))"
    by (simp add: index_def example_def example_frame_def)
  from delete_data_run [OF this]
  obtain s1 where d1: "delete_data example 1 = Inr (''Data deleted successfully.'', s1)"
    by simp
  have d2: "has_schema ?cols (data (dataset s1))"
    by (rule tD [OF d1])
  have n: "length (rows (data (dataset example))) = 3"
    by (simp add: example_def example_frame_def)
  have keys: "fst ` set ?new \<subseteq> set ?cols"
    by simp
  have pre: "fst ` set ?new \<subseteq> set ?cols \<and> map_of ?new ''date'' = Some (StrV ''2023-01-09'')
     \<and> (\<forall>(l, r) \<in> set (rows (data (dataset example))). r ''date'' \<noteq> Some (StrV ''2023-01-09''))"
    by (simp add: example_def example_frame_def)
  from tN [OF pre] obtain s2 where a1: "add_data example ?new = Inr (''Data added successfully.'', s2)"
    and a3: "\<forall>k. k \<notin> fst ` set ?new \<longrightarrow> cell_at (data (dataset s2)) (length (rows (data (dataset example)))) k = None"
    by (elim exE conjE)
  have a2: "has_schema ?cols (data (dataset s2))"
    by (rule tA [OF conjI [OF keys a1]])
  have "''revenue'' \<notin> fst ` set ?new"
    by simp
  from a3 [rule_format, OF this] have a4: "cell_at (data (dataset s2)) 3 ''revenue'' = None"
    by (simp only: n)
  from d1 d2 have D: "\<exists>self'. delete_data example 1 = Inr (''Data deleted successfully.'', self')
         \<and> has_schema ?cols (data (dataset self'))"
    by (intro exI conjI)
  from a1 a2 a4 have A: "\<exists>self'. add_data example ?new = Inr (''Data added successfully.'', self')
         \<and> has_schema ?cols (data (dataset self'))
         \<and> cell_at (data (dataset self')) 3 ''revenue'' = None"
    by (intro exI conjI)
  show ?thesis
    by (intro conjI h e D A)
qed

text \<open>
  C7 as stated speaks of every insert and every update. An update that names a column
  the table does not have adds that column, and so does an insert whose mapping has such
  a key.
\<close>

theorem schema_preserved_counterexample:
  "columns (data (dataset example)) = [''date'', ''revenue'', ''product'', ''discounts'', ''IT'']
   \<and> columns (data (dataset (snd (edit_data example 0 ''Foo'' (IntV 1)))))
       = [''date'', ''revenue'', ''product'', ''discounts'', ''IT'', ''Foo'']
   \<and> columns (data (dataset (snd (projr
         (add_data example [(''date'', StrV ''2023-01-09''), (''Foo'', IntV 1)])))))
       = [''date'', ''revenue'', ''product'', ''discounts'', ''IT'', ''Foo'']"
proof -
  have c: "columns (data (dataset example)) = [''date'', ''revenue'', ''product'', ''discounts'', ''IT'']"
    by (simp add: example_def example_frame_def)
  have e: "columns (data (dataset (snd (edit_data example 0 ''Foo'' (IntV 1)))))
       = [''date'', ''revenue'', ''product'', ''discounts'', ''IT'', ''Foo'']"
    by (simp add: data_edit_data columns_at_set c)
  have a: "columns (data (dataset (snd (projr
         (add_data example [(''date'', StrV ''2023-01-09''), (''Foo'', IntV 1)])))))
       = [''date'', ''revenue'', ''product'', ''discounts'', ''IT'', ''Foo'']"
  proof -
    have "add_data example [(''date'', StrV ''2023-01-09''), (''Foo'', IntV 1)]
            = Inr (''Data added successfully.'',
                   set_data example (concat_ignore_index (data (dataset example))
                      (DataFrame_of_records [(''date'', StrV ''2023-01-09''), (''Foo'', IntV 1)])))"
      by (rule add_data_run [where d = "StrV ''2023-01-09''"])
         (simp_all add: example_def example_frame_def)
    then show ?thesis
      by (simp add: data_set_data concat_ignore_index_def columns_reset_index
          DataFrame_of_records_def c)
  qed
  show ?thesis using c e a by simp
qed

section \<open>Summary statistics\<close>




end
